theory Spec2Isabelle
  imports Main "HOL-Library.Word"
begin

unbundle bit_operations_syntax

section \<open>Machine integers and constants of the driver\<close>

text \<open>
  A C \<open>int\<close> and a \<open>u32\<close> are both 32-bit words; the signed reading of an \<open>int\<close> is
  \<open>sint\<close>, so the test \<open>ret < 0\<close> of the source is \<open>ret <s 0\<close> and \<open>if (ret)\<close> is
  \<open>ret \<noteq> 0\<close>. Passing an \<open>int\<close> where a \<open>u32\<close> is expected keeps the bits.
\<close>

type_synonym c_int = "32 word"
type_synonym u32 = "32 word"

text \<open>The kernel's \<open>BIT(nr)\<close> is \<open>1UL << nr\<close>; every use in the driver has \<open>nr \<le> 15\<close>,
  so masking a 32-bit value with it never looks above bit 31.\<close>

definition BIT :: "nat \<Rightarrow> 32 word" where
  "BIT nr = push_bit nr 1"

definition EINVAL :: c_int where "EINVAL = 22"

definition MMD1F :: c_int where "MMD1F = 0x1f"
definition MMD1 :: c_int where "MMD1 = 0x1"

definition DP83TC81x_STRAP :: c_int where "DP83TC81x_STRAP = 0x45d"
definition MII_DP83TC81x_RESET_CTRL :: c_int where "MII_DP83TC81x_RESET_CTRL = 0x1f"
definition DP83TC81x_CDCR :: c_int where "DP83TC81x_CDCR = 0x1E"
definition TDR_DONE :: c_int where "TDR_DONE = BIT 1"
definition TDR_FAIL :: c_int where "TDR_FAIL = BIT 0"
definition DP83TC81x_TDR_TC1 :: c_int where "DP83TC81x_TDR_TC1 = 0x310"
definition DP83TC81x_TDR_START_BIT :: c_int where "DP83TC81x_TDR_START_BIT = BIT 15"
definition PEAK_DETECT :: u32 where "PEAK_DETECT = BIT 7"
definition PEAK_SIGN :: u32 where "PEAK_SIGN = BIT 6"

definition DP83TC81x_HW_RESET :: c_int where "DP83TC81x_HW_RESET = BIT 15"
definition DP83TC81x_SW_RESET :: c_int where "DP83TC81x_SW_RESET = BIT 14"

definition DP83TC81x_MASTER_MODE :: c_int where "DP83TC81x_MASTER_MODE = BIT 9"
definition DP83TC81x_RGMII_IS_EN :: c_int where "DP83TC81x_RGMII_IS_EN = BIT 7"

definition DP83TC81x_dsp_reg_71 :: c_int where "DP83TC81x_dsp_reg_71 = 0x871"
definition MAX_SQI_VALUE :: c_int where "MAX_SQI_VALUE = 0x7"

text \<open>\<open>enum dp83tc81x_chip_type\<close>; the field \<open>chip\<close> that holds it is an \<open>int\<close>, and the
  \<open>switch\<close> over it has a \<open>default\<close> branch, so the values stay integers.\<close>

definition DP83TC812_CT :: c_int where "DP83TC812_CT = 0"
definition DP83TC813_CT :: c_int where "DP83TC813_CT = 1"
definition DP83TC814_CT :: c_int where "DP83TC814_CT = 2"

text \<open>Values of the ethtool headers that \<open>dp83tc81x_chip_init\<close> stores in the device.\<close>

definition AUTONEG_DISABLE :: c_int where "AUTONEG_DISABLE = 0"
definition SPEED_100 :: c_int where "SPEED_100 = 100"
definition DUPLEX_FULL :: c_int where "DUPLEX_FULL = 1"
definition ETHTOOL_LINK_MODE_100baseT_Full_BIT :: nat where
  "ETHTOOL_LINK_MODE_100baseT_Full_BIT = 3"

datatype cable_result_code =
    ETHTOOL_A_CABLE_RESULT_CODE_UNSPEC
  | ETHTOOL_A_CABLE_RESULT_CODE_OK
  | ETHTOOL_A_CABLE_RESULT_CODE_OPEN
  | ETHTOOL_A_CABLE_RESULT_CODE_SAME_SHORT
  | ETHTOOL_A_CABLE_RESULT_CODE_CROSS_SHORT

datatype cable_pair =
    ETHTOOL_A_CABLE_PAIR_A
  | ETHTOOL_A_CABLE_PAIR_B
  | ETHTOOL_A_CABLE_PAIR_C
  | ETHTOOL_A_CABLE_PAIR_D

section \<open>Register tables\<close>

record dp83tc81x_init_reg =
  MMD :: c_int
  reg :: c_int
  val :: c_int

definition init_reg :: "c_int \<times> c_int \<times> c_int \<Rightarrow> dp83tc81x_init_reg" where
  "init_reg t = (case t of (m, r, v) \<Rightarrow> \<lparr>MMD = m, reg = r, val = v\<rparr>)"

definition DP83TC812_master_cs2_0_init :: "dp83tc81x_init_reg list" where
  "DP83TC812_master_cs2_0_init = map init_reg
    [(0x1F, 0x001F, 0x8000),
     (0x1F, 0x0523, 0x0001),
     (0x1, 0x0834, 0xC001),
     (0x1F, 0x081C, 0x0FE2),
     (0x1F, 0x0872, 0x0300),
     (0x1F, 0x0879, 0x0F00),
     (0x1F, 0x0806, 0x2952),
     (0x1F, 0x0807, 0x3361),
     (0x1F, 0x0808, 0x3D7B),
     (0x1F, 0x083E, 0x045F),
     (0x1F, 0x0834, 0x8000),
     (0x1F, 0x0862, 0x00E8),
     (0x1F, 0x0896, 0x32CB),
     (0x1F, 0x003E, 0x0009),
     (0x1F, 0x001F, 0x4000),
     (0x1F, 0x0523, 0x0000)]"

definition DP83TC812_slave_cs2_0_init :: "dp83tc81x_init_reg list" where
  "DP83TC812_slave_cs2_0_init = map init_reg
    [(0x1F, 0x001F, 0x8000),
     (0x1F, 0x0523, 0x0001),
     (0x1, 0x0834, 0x8001),
     (0x1F, 0x0873, 0x0821),
     (0x1F, 0x0896, 0x22FF),
     (0x1F, 0x089E, 0x0000),
     (0x1F, 0x001F, 0x4000),
     (0x1F, 0x0523, 0x0000)]"

definition DP83TC81x_tdr_config_init :: "dp83tc81x_init_reg list" where
  "DP83TC81x_tdr_config_init = map init_reg
    [(0x1F, 0x523, 0x0001),
     (0x1F, 0x827, 0x4800),
     (0x1F, 0x301, 0x1701),
     (0x1F, 0x303, 0x023D),
     (0x1F, 0x305, 0x0015),
     (0x1F, 0x306, 0x001A),
     (0x1F, 0x01f, 0x4000),
     (0x1F, 0x523, 0x0000),
     (0x1F, 0x01f, 0x0000)]"

section \<open>The device and the host framework\<close>

record dp83tc81x_private =
  chip :: c_int
  is_master :: bool
  is_rgmii :: bool
  is_sgmii :: bool

text \<open>
  What the driver does to the outside world is recorded, in order, as a list of events:
  the register transactions it asks the framework for, the delays it takes and what it
  publishes to the cable-test subsystem.
\<close>

datatype event =
    Read_mmd c_int c_int
  | Write_mmd c_int c_int c_int
  | Set_bits_mmd c_int c_int c_int
  | Mdelay nat
  | Msleep nat
  | Fault_length cable_pair u32
  | Cable_result cable_pair cable_result_code

text \<open>
  \<open>struct phy_device\<close>, cut down to what this driver touches. The register transport
  belongs to the framework: \<open>bus_replies\<close> fixes what the \<open>n\<close>-th register
  transaction returns (a negative errno or the value), \<open>bus_ops\<close> counts the transactions
  made so far. Every behaviour of the bus is one choice of \<open>bus_replies\<close>.
\<close>

record phy_device =
  priv :: dp83tc81x_private
  autoneg :: c_int
  speed :: c_int
  duplex :: c_int
  supported :: "nat set"
  bus_replies :: "nat \<Rightarrow> c_int"
  bus_ops :: nat
  trace :: "event list"

definition emit :: "event \<Rightarrow> phy_device \<Rightarrow> phy_device" where
  "emit e phydev = phydev\<lparr>trace := trace phydev @ [e]\<rparr>"

definition bus_transaction :: "event \<Rightarrow> phy_device \<Rightarrow> c_int \<times> phy_device" where
  "bus_transaction e phydev =
     (bus_replies phydev (bus_ops phydev),
      emit e (phydev\<lparr>bus_ops := Suc (bus_ops phydev)\<rparr>))"

definition phy_read_mmd :: "phy_device \<Rightarrow> c_int \<Rightarrow> c_int \<Rightarrow> c_int \<times> phy_device" where
  "phy_read_mmd phydev devad regnum = bus_transaction (Read_mmd devad regnum) phydev"

definition phy_write_mmd ::
  "phy_device \<Rightarrow> c_int \<Rightarrow> c_int \<Rightarrow> c_int \<Rightarrow> c_int \<times> phy_device" where
  "phy_write_mmd phydev devad regnum v = bus_transaction (Write_mmd devad regnum v) phydev"

definition phy_set_bits_mmd ::
  "phy_device \<Rightarrow> c_int \<Rightarrow> c_int \<Rightarrow> c_int \<Rightarrow> c_int \<times> phy_device" where
  "phy_set_bits_mmd phydev devad regnum v =
     bus_transaction (Set_bits_mmd devad regnum v) phydev"

definition mdelay :: "nat \<Rightarrow> phy_device \<Rightarrow> phy_device" where
  "mdelay ms phydev = emit (Mdelay ms) phydev"

definition msleep :: "nat \<Rightarrow> phy_device \<Rightarrow> phy_device" where
  "msleep ms phydev = emit (Msleep ms) phydev"

definition ethnl_cable_test_fault_length ::
  "phy_device \<Rightarrow> cable_pair \<Rightarrow> u32 \<Rightarrow> phy_device" where
  "ethnl_cable_test_fault_length phydev pair cm = emit (Fault_length pair cm) phydev"

definition ethnl_cable_test_result ::
  "phy_device \<Rightarrow> cable_pair \<Rightarrow> cable_result_code \<Rightarrow> phy_device" where
  "ethnl_cable_test_result phydev pair res = emit (Cable_result pair res) phydev"

section \<open>The driver\<close>

definition dp83tc81x_read_straps :: "phy_device \<Rightarrow> c_int \<times> phy_device" where
  "dp83tc81x_read_straps phydev =
     (let (strap, phydev) = phy_read_mmd phydev MMD1F DP83TC81x_STRAP in
      if strap <s 0 then (strap, phydev)
      else
        let phydev =
              (if strap AND DP83TC81x_MASTER_MODE \<noteq> 0
               then phydev\<lparr>priv := (priv phydev)\<lparr>is_master := True\<rparr>\<rparr> else phydev);
            phydev =
              (if strap AND DP83TC81x_RGMII_IS_EN \<noteq> 0
               then phydev\<lparr>priv := (priv phydev)\<lparr>is_rgmii := True\<rparr>\<rparr> else phydev)
        in (0, phydev))"

definition dp83tc81x_reset :: "phy_device \<Rightarrow> bool \<Rightarrow> c_int \<times> phy_device" where
  "dp83tc81x_reset phydev hw_reset =
     (let (ret, phydev) =
            (if hw_reset
             then phy_write_mmd phydev MMD1F MII_DP83TC81x_RESET_CTRL DP83TC81x_HW_RESET
             else phy_write_mmd phydev MMD1F MII_DP83TC81x_RESET_CTRL DP83TC81x_SW_RESET)
      in if ret \<noteq> 0 then (ret, phydev) else (0, mdelay 100 phydev))"

definition dp83tc81x_phy_reset :: "phy_device \<Rightarrow> c_int \<times> phy_device" where
  "dp83tc81x_phy_reset phydev =
     (let (err, phydev) =
            phy_write_mmd phydev MMD1F MII_DP83TC81x_RESET_CTRL DP83TC81x_HW_RESET
      in if err <s 0 then (err, phydev)
         else
           let (ret, phydev) = dp83tc81x_read_straps phydev
           in if ret \<noteq> 0 then (ret, phydev) else (0, phydev))"

text \<open>The loop over \<open>init_data[0 .. size - 1]\<close>; every caller passes a table with its
  \<open>ARRAY_SIZE\<close>, so the table is a list and the loop a recursion over it.\<close>

fun dp83tc81x_write_seq ::
  "phy_device \<Rightarrow> dp83tc81x_init_reg list \<Rightarrow> c_int \<times> phy_device" where
  "dp83tc81x_write_seq phydev [] = (0, phydev)"
| "dp83tc81x_write_seq phydev (d # init_data) =
     (let (ret, phydev) = phy_write_mmd phydev (MMD d) (reg d) (val d)
      in if ret \<noteq> 0 then (ret, phydev) else dp83tc81x_write_seq phydev init_data)"

text \<open>\<open>genphy_read_status\<close> and \<open>genphy_c45_pma_baset1_read_master_slave\<close> are the
  framework's; the driver function is modelled for any pair of them.\<close>

definition dp83tc81x_read_status ::
  "(phy_device \<Rightarrow> c_int \<times> phy_device) \<Rightarrow> (phy_device \<Rightarrow> c_int \<times> phy_device) \<Rightarrow>
   phy_device \<Rightarrow> c_int \<times> phy_device" where
  "dp83tc81x_read_status genphy_read_status genphy_c45_pma_baset1_read_master_slave phydev =
     (let (ret, phydev) = genphy_read_status phydev
      in if ret \<noteq> 0 then (ret, phydev)
         else
           let (ret, phydev) = genphy_c45_pma_baset1_read_master_slave phydev
           in (0, phydev))"

definition dp83tc81x_sqi :: "phy_device \<Rightarrow> c_int \<times> phy_device" where
  "dp83tc81x_sqi phydev =
     (let (sqi, phydev) = phy_read_mmd phydev MMD1F DP83TC81x_dsp_reg_71
      in if sqi <s 0 then (sqi, phydev)
         else (signed_drop_bit 1 sqi AND 0x7, phydev))"

definition dp83tc81x_sqi_max :: "phy_device \<Rightarrow> c_int" where
  "dp83tc81x_sqi_max phydev = MAX_SQI_VALUE"

definition dp83tc81x_cable_test_start :: "phy_device \<Rightarrow> c_int \<times> phy_device" where
  "dp83tc81x_cable_test_start phydev =
     (let (_, phydev) = dp83tc81x_write_seq phydev DP83TC81x_tdr_config_init;
          (_, phydev) = phy_write_mmd phydev MMD1F DP83TC81x_CDCR DP83TC81x_TDR_START_BIT;
          phydev = msleep 100 phydev
      in (0, phydev))"

definition dp83tc81x_cable_test_report_trans ::
  "phy_device \<Rightarrow> u32 \<Rightarrow> cable_result_code \<times> phy_device" where
  "dp83tc81x_cable_test_report_trans phydev result =
     (if result = 0 then (ETHTOOL_A_CABLE_RESULT_CODE_OK, phydev)
      else if result AND PEAK_DETECT \<noteq> 0 then
        let length_of_fault = (result AND 0x3F) * 100
        in if result AND PEAK_SIGN \<noteq> 0
           then (ETHTOOL_A_CABLE_RESULT_CODE_OPEN,
                 ethnl_cable_test_fault_length phydev ETHTOOL_A_CABLE_PAIR_A length_of_fault)
           else (ETHTOOL_A_CABLE_RESULT_CODE_SAME_SHORT,
                 ethnl_cable_test_fault_length phydev ETHTOOL_A_CABLE_PAIR_A length_of_fault)
      else (ETHTOOL_A_CABLE_RESULT_CODE_UNSPEC, phydev))"

definition dp83tc81x_cable_test_report :: "phy_device \<Rightarrow> c_int \<times> phy_device" where
  "dp83tc81x_cable_test_report phydev =
     (let (ret, phydev) = phy_read_mmd phydev MMD1F DP83TC81x_TDR_TC1
      in if ret <s 0 then (ret, phydev)
         else
           let (code, phydev) = dp83tc81x_cable_test_report_trans phydev ret
           in (0, ethnl_cable_test_result phydev ETHTOOL_A_CABLE_PAIR_A code))"

text \<open>The out-parameter \<open>*finished\<close> is the second component of the result.\<close>

definition dp83tc81x_cable_test_get_status :: "phy_device \<Rightarrow> c_int \<times> bool \<times> phy_device" where
  "dp83tc81x_cable_test_get_status phydev =
     (let finished = False;
          (ret, phydev) = phy_read_mmd phydev MMD1F DP83TC81x_CDCR
      in if ret AND TDR_DONE = 0 then (0, finished, phydev)
         else if ret AND TDR_FAIL = 0 then
           let finished = True;
               (r, phydev) = dp83tc81x_cable_test_report phydev
           in (r, finished, phydev)
         else (- EINVAL, finished, phydev))"

text \<open>One arm of the \<open>switch\<close> in \<open>dp83tc81x_chip_init\<close>; the source writes the same
  text in each of its three arms. It assigns \<open>ret\<close> from the table write and drops the
  result of \<open>phy_set_bits_mmd\<close>. In \<open>dp83tc81x_chip_init\<close> the \<open>ret\<close> of the write to
  register \<open>0x0834\<close> is overwritten by the arm, and \<open>default\<close> returns \<open>-EINVAL\<close>.\<close>

definition chip_init_arm :: "phy_device \<Rightarrow> c_int \<times> phy_device" where
  "chip_init_arm phydev =
     (if is_master (priv phydev) then
        let (ret, phydev) = dp83tc81x_write_seq phydev DP83TC812_master_cs2_0_init;
            (_, phydev) = phy_set_bits_mmd phydev MMD1F 0x018B (BIT 6)
        in (ret, phydev)
      else
        let (ret, phydev) = dp83tc81x_write_seq phydev DP83TC812_slave_cs2_0_init;
            (_, phydev) = phy_set_bits_mmd phydev MMD1F 0x018B (BIT 6)
        in (ret, phydev))"

definition dp83tc81x_chip_init :: "phy_device \<Rightarrow> c_int \<times> phy_device" where
  "dp83tc81x_chip_init phydev =
     (let (ret, phydev) = dp83tc81x_reset phydev True
      in if ret \<noteq> 0 then (ret, phydev)
         else
           let phydev = phydev\<lparr>autoneg := AUTONEG_DISABLE, speed := SPEED_100,
                               duplex := DUPLEX_FULL,
                               supported :=
                                 insert ETHTOOL_LINK_MODE_100baseT_Full_BIT (supported phydev)\<rparr>;
               (ret, phydev) =
                 (if is_master (priv phydev)
                  then phy_write_mmd phydev MMD1 0x0834 0xc001
                  else phy_write_mmd phydev MMD1 0x0834 0x8001);
               switch =
                 (if chip (priv phydev) = DP83TC812_CT then Some (chip_init_arm phydev)
                  else if chip (priv phydev) = DP83TC813_CT then Some (chip_init_arm phydev)
                  else if chip (priv phydev) = DP83TC814_CT then Some (chip_init_arm phydev)
                  else None)
           in case switch of
                None \<Rightarrow> (- EINVAL, phydev)
              | Some (ret, phydev) \<Rightarrow>
                  if ret \<noteq> 0 then (ret, phydev)
                  else dp83tc81x_reset (mdelay 10 phydev) False)"

section \<open>Concrete devices\<close>

text \<open>A bus that answers the first transactions from a list and \<open>0\<close> afterwards.\<close>

definition script :: "c_int list \<Rightarrow> nat \<Rightarrow> c_int" where
  "script rs n = (if n < length rs then rs ! n else 0)"

text \<open>The device as \<open>dp83tc81x_probe\<close> first has it: private data zeroed by
  \<open>devm_kzalloc\<close>, no register transaction made yet.\<close>

definition fresh_phydev :: "(nat \<Rightarrow> c_int) \<Rightarrow> phy_device" where
  "fresh_phydev replies =
     \<lparr>priv = \<lparr>chip = DP83TC812_CT, is_master = False, is_rgmii = False, is_sgmii = False\<rparr>,
      autoneg = 0, speed = 0, duplex = 0, supported = {},
      bus_replies = replies, bus_ops = 0, trace = []\<rparr>"

text \<open>The caller polls: \<open>n\<close> calls of \<open>dp83tc81x_cable_test_get_status\<close> in a row, each on
  the device as the call before left it.\<close>

abbreviation polls :: "nat \<Rightarrow> phy_device \<Rightarrow> phy_device" where
  "polls n \<equiv> (\<lambda>phydev. snd (snd (dp83tc81x_cable_test_get_status phydev))) ^^ n"

section \<open>Bits, masks and signed readings\<close>

lemmas framework_defs =
  emit_def bus_transaction_def phy_read_mmd_def phy_write_mmd_def phy_set_bits_mmd_def
  mdelay_def msleep_def ethnl_cable_test_fault_length_def ethnl_cable_test_result_def

lemma and_BIT_eq_0_iff: "x AND BIT n = 0 \<longleftrightarrow> \<not> bit x n"
  by (simp add: BIT_def and_exp_eq_0_iff_not_bit)

lemma and_0x3F: "(v :: u32) AND 0x3F = take_bit 6 v"
  by (simp add: take_bit_eq_mask mask_eq_exp_minus_1)

lemma low6_times_100: "unat (((v :: u32) AND 0x3F) * 100) = (unat v mod 64) * 100"
proof -
  have "unat (v AND 0x3F) = unat v mod 64"
    by (simp add: and_0x3F take_bit_eq_mod unat_mod)
  moreover have "unat v mod 64 * 100 < 2 ^ 32"
  proof -
    have "unat v mod 64 < 64" by simp
    then show ?thesis by simp
  qed
  ultimately show ?thesis
    by (simp add: unat_word_ariths)
qed

lemma and_7: "(v :: c_int) AND 0x7 = take_bit 3 v"
  by (simp add: take_bit_eq_mask mask_eq_exp_minus_1)

lemma sqi_bits: "signed_drop_bit 1 (r :: c_int) AND 0x7 = take_bit 3 (drop_bit 1 r)"
  unfolding and_7 by (rule bit_eqI) (auto simp: bit_simps)

lemma unat_sqi_bits: "unat (take_bit 3 (drop_bit 1 (r :: c_int))) = (unat r div 2) mod 8"
  by (simp add: take_bit_eq_mod drop_bit_eq_div unat_mod unat_div)

lemma sint_small:
  fixes w :: c_int
  assumes "uint w < 2 ^ 31"
  shows "sint w = uint w"
proof -
  have "- (2 ^ 31) \<le> uint w"
    by (rule order_trans [of _ 0]) simp_all
  with assms have "signed_take_bit 31 (uint w) = uint w"
    by (simp add: signed_take_bit_int_eq_self)
  then show ?thesis
    by (simp add: sint_uint)
qed

lemma sqi_bits_range:
  "0 <=s take_bit 3 (drop_bit 1 (r :: c_int)) \<and> take_bit 3 (drop_bit 1 r) <=s 7"
proof -
  have "uint (take_bit 3 (drop_bit 1 r)) < 2 ^ 3"
    unfolding unsigned_take_bit_eq by (rule take_bit_int_less_exp)
  then have lt: "uint (take_bit 3 (drop_bit 1 r)) < 8"
    by simp
  then have "sint (take_bit 3 (drop_bit 1 r)) = uint (take_bit 3 (drop_bit 1 r))"
    by (intro sint_small) simp
  with lt show ?thesis
    by (simp add: word_sle_eq)
qed

section \<open>Decoding the TDR result\<close>

text \<open>
  C1. For every raw result \<open>v\<close>, \<open>dp83tc81x_cable_test_report_trans\<close> classifies it as
  OK when \<open>v = 0\<close>; when bit 7 (peak detected) is set, as OPEN if bit 6 (sign) is set and
  as SAME_SHORT if bit 6 is clear, so that bit 6 alone decides; and as UNSPEC when bit 7
  is clear and \<open>v \<noteq> 0\<close>.
\<close>

theorem report_trans_classification:
  fixes v :: u32
  shows "(v = 0 \<longrightarrow>
            fst (dp83tc81x_cable_test_report_trans phydev v) = ETHTOOL_A_CABLE_RESULT_CODE_OK)
       \<and> (bit v 7 \<and> bit v 6 \<longrightarrow>
            fst (dp83tc81x_cable_test_report_trans phydev v) = ETHTOOL_A_CABLE_RESULT_CODE_OPEN)
       \<and> (bit v 7 \<and> \<not> bit v 6 \<longrightarrow>
            fst (dp83tc81x_cable_test_report_trans phydev v)
              = ETHTOOL_A_CABLE_RESULT_CODE_SAME_SHORT)
       \<and> (\<not> bit v 7 \<and> v \<noteq> 0 \<longrightarrow>
            fst (dp83tc81x_cable_test_report_trans phydev v)
              = ETHTOOL_A_CABLE_RESULT_CODE_UNSPEC)"
  by (auto simp: dp83tc81x_cable_test_report_trans_def PEAK_DETECT_def PEAK_SIGN_def
      and_BIT_eq_0_iff Let_def)

theorem report_trans_classification_witness:
  "fst (dp83tc81x_cable_test_report_trans (fresh_phydev (script [])) 0)
     = ETHTOOL_A_CABLE_RESULT_CODE_OK
   \<and> bit (0xC8 :: u32) 7 \<and> bit (0xC8 :: u32) 6
   \<and> fst (dp83tc81x_cable_test_report_trans (fresh_phydev (script [])) 0xC8)
       = ETHTOOL_A_CABLE_RESULT_CODE_OPEN
   \<and> bit (0x88 :: u32) 7 \<and> \<not> bit (0x88 :: u32) 6
   \<and> fst (dp83tc81x_cable_test_report_trans (fresh_phydev (script [])) 0x88)
       = ETHTOOL_A_CABLE_RESULT_CODE_SAME_SHORT
   \<and> \<not> bit (0x48 :: u32) 7 \<and> (0x48 :: u32) \<noteq> 0
   \<and> fst (dp83tc81x_cable_test_report_trans (fresh_phydev (script [])) 0x48)
       = ETHTOOL_A_CABLE_RESULT_CODE_UNSPEC"
  using report_trans_classification [of "0" "fresh_phydev (script [])"]
    report_trans_classification [of "0xC8" "fresh_phydev (script [])"]
    report_trans_classification [of "0x88" "fresh_phydev (script [])"]
    report_trans_classification [of "0x48" "fresh_phydev (script [])"]
  by simp

lemma and_0xFF: "(v :: u32) AND 0xFF = take_bit 8 v"
  by (simp add: take_bit_eq_mask mask_eq_exp_minus_1)

lemma report_trans_peak:
  assumes "bit v 7"
  shows "dp83tc81x_cable_test_report_trans phydev v =
           (if bit v 6 then ETHTOOL_A_CABLE_RESULT_CODE_OPEN
            else ETHTOOL_A_CABLE_RESULT_CODE_SAME_SHORT,
            phydev\<lparr>trace := trace phydev
               @ [Fault_length ETHTOOL_A_CABLE_PAIR_A ((v AND 0x3F) * 100)]\<rparr>)"
proof -
  from assms have "v \<noteq> 0" by auto
  with assms show ?thesis
    by (simp add: dp83tc81x_cable_test_report_trans_def PEAK_DETECT_def PEAK_SIGN_def
      and_BIT_eq_0_iff framework_defs)
qed

lemma low8_bits:
  assumes "(w :: u32) AND 0xFF = v AND 0xFF"
  shows "bit w 7 = bit v 7" and "bit w 6 = bit v 6" and "w AND 0x3F = v AND 0x3F"
proof -
  from assms have e: "take_bit 8 w = take_bit 8 v"
    by (simp add: and_0xFF)
  have "bit (take_bit 8 w) 7 = bit (take_bit 8 v) 7" "bit (take_bit 8 w) 6 = bit (take_bit 8 v) 6"
    by (simp_all only: e)
  then show "bit w 7 = bit v 7" and "bit w 6 = bit v 6"
    by (simp_all add: bit_take_bit_iff)
  have "take_bit 6 (take_bit 8 w) = take_bit 6 (take_bit 8 v)"
    by (simp only: e)
  then show "w AND 0x3F = v AND 0x3F"
    by (simp add: and_0x3F)
qed

text \<open>
  C2, as stated, ends with: raw result \<open>0x00C8\<close> decodes to SAME_SHORT with
  fault distance 800. In \<open>0xC8 = 1100_1000\<close> bit 6 is set, so the code classifies it as
  OPEN; the classification of the claim is not what the code returns.
\<close>

theorem report_trans_0xC8_counterexample:
  "fst (dp83tc81x_cable_test_report_trans (fresh_phydev (script [])) 0xC8)
     \<noteq> ETHTOOL_A_CABLE_RESULT_CODE_SAME_SHORT"
  by (simp add: dp83tc81x_cable_test_report_trans_def PEAK_DETECT_def PEAK_SIGN_def BIT_def)

text \<open>
  C2, amended. For every raw result \<open>v\<close> with bit 7 (peak detected) set, the fault
  length that \<open>dp83tc81x_cable_test_report_trans\<close> publishes for pair A is
  \<open>(v & 0x3F) * 100\<close>, which is the number \<open>(v mod 64) * 100\<close> with no wrap-around, and
  the whole outcome is the same for any raw result that agrees with \<open>v\<close> on the bits of
  \<open>0xC0 | 0x3F\<close>; raw result \<open>0x00C8\<close> decodes to OPEN with fault distance 800.
\<close>

theorem report_trans_fault_length:
  assumes "bit v 7"
  shows "snd (dp83tc81x_cable_test_report_trans phydev v) =
           phydev\<lparr>trace := trace phydev
              @ [Fault_length ETHTOOL_A_CABLE_PAIR_A ((v AND 0x3F) * 100)]\<rparr>
       \<and> unat ((v AND 0x3F) * 100) = (unat v mod 64) * 100
       \<and> (\<forall>w. w AND 0xFF = v AND 0xFF \<longrightarrow>
            dp83tc81x_cable_test_report_trans phydev w
              = dp83tc81x_cable_test_report_trans phydev v)
       \<and> dp83tc81x_cable_test_report_trans phydev 0x00C8 =
           (ETHTOOL_A_CABLE_RESULT_CODE_OPEN,
            phydev\<lparr>trace := trace phydev @ [Fault_length ETHTOOL_A_CABLE_PAIR_A 800]\<rparr>)"
proof (intro conjI allI impI)
  show "snd (dp83tc81x_cable_test_report_trans phydev v) =
           phydev\<lparr>trace := trace phydev
              @ [Fault_length ETHTOOL_A_CABLE_PAIR_A ((v AND 0x3F) * 100)]\<rparr>"
    by (simp add: report_trans_peak [OF assms])
  show "unat ((v AND 0x3F) * 100) = (unat v mod 64) * 100"
    by (rule low6_times_100)
  show "dp83tc81x_cable_test_report_trans phydev w
              = dp83tc81x_cable_test_report_trans phydev v"
    if "w AND 0xFF = v AND 0xFF" for w
  proof -
    from low8_bits [OF that] assms have "bit w 7" by simp
    from report_trans_peak [OF this] report_trans_peak [OF assms] low8_bits [OF that]
    show ?thesis by simp
  qed
  have "bit (0xC8 :: u32) 7" by simp
  from report_trans_peak [OF this]
  show "dp83tc81x_cable_test_report_trans phydev 0x00C8 =
           (ETHTOOL_A_CABLE_RESULT_CODE_OPEN,
            phydev\<lparr>trace := trace phydev @ [Fault_length ETHTOOL_A_CABLE_PAIR_A 800]\<rparr>)"
    by simp
qed

theorem report_trans_fault_length_witness:
  "bit (0x88 :: u32) 7
   \<and> dp83tc81x_cable_test_report_trans (fresh_phydev (script [])) 0x88 =
       (ETHTOOL_A_CABLE_RESULT_CODE_SAME_SHORT,
        fresh_phydev (script [])\<lparr>trace := [Fault_length ETHTOOL_A_CABLE_PAIR_A 800]\<rparr>)
   \<and> dp83tc81x_cable_test_report_trans (fresh_phydev (script [])) 0xABCD0088
       = dp83tc81x_cable_test_report_trans (fresh_phydev (script [])) 0x88"
proof -
  have h: "bit (0x88 :: u32) 7" by simp
  have c: "fst (dp83tc81x_cable_test_report_trans (fresh_phydev (script [])) 0x88)
             = ETHTOOL_A_CABLE_RESULT_CODE_SAME_SHORT"
    by (simp add: dp83tc81x_cable_test_report_trans_def PEAK_DETECT_def PEAK_SIGN_def BIT_def)
  have m: "(0xABCD0088 :: u32) AND 0xFF = 0x88 AND 0xFF" by simp
  have t: "trace (fresh_phydev (script [])) = []" by (simp add: fresh_phydev_def)
  note inst = report_trans_fault_length [OF h, of "fresh_phydev (script [])"]
  from inst [THEN conjunct1]
  have s: "snd (dp83tc81x_cable_test_report_trans (fresh_phydev (script [])) 0x88) =
      fresh_phydev (script [])\<lparr>trace := [Fault_length ETHTOOL_A_CABLE_PAIR_A 800]\<rparr>"
    by (simp add: t)
  from inst [THEN conjunct2, THEN conjunct2, THEN conjunct1, rule_format, OF m]
  have i: "dp83tc81x_cable_test_report_trans (fresh_phydev (script [])) 0xABCD0088
       = dp83tc81x_cable_test_report_trans (fresh_phydev (script [])) 0x88" .
  have "dp83tc81x_cable_test_report_trans (fresh_phydev (script [])) 0x88 =
       (ETHTOOL_A_CABLE_RESULT_CODE_SAME_SHORT,
        fresh_phydev (script [])\<lparr>trace := [Fault_length ETHTOOL_A_CABLE_PAIR_A 800]\<rparr>)"
    using c s by (simp only: prod_eq_iff fst_conv snd_conv simp_thms)
  with h i show ?thesis
    by (intro conjI)
qed

section \<open>Polling the TDR status\<close>

lemma get_status_not_done:
  assumes "\<not> bit (bus_replies phydev (bus_ops phydev)) 1"
  shows "dp83tc81x_cable_test_get_status phydev =
           (0, False, phydev\<lparr>bus_ops := Suc (bus_ops phydev),
                             trace := trace phydev @ [Read_mmd MMD1F DP83TC81x_CDCR]\<rparr>)"
  using assms
  by (simp add: dp83tc81x_cable_test_get_status_def framework_defs TDR_DONE_def
      and_BIT_eq_0_iff)

lemma polls_not_done:
  assumes "\<forall>k<n. \<not> bit (bus_replies phydev (bus_ops phydev + k)) 1"
  shows "polls n phydev =
           phydev\<lparr>bus_ops := bus_ops phydev + n,
                   trace := trace phydev @ replicate n (Read_mmd MMD1F DP83TC81x_CDCR)\<rparr>"
  using assms
proof (induction n)
  case 0
  then show ?case by simp
next
  case (Suc n)
  then have ih: "polls n phydev =
           phydev\<lparr>bus_ops := bus_ops phydev + n,
                   trace := trace phydev @ replicate n (Read_mmd MMD1F DP83TC81x_CDCR)\<rparr>"
    by simp
  from Suc.prems have "\<not> bit (bus_replies phydev (bus_ops phydev + n)) 1"
    by simp
  then have nd: "\<not> bit (bus_replies (polls n phydev) (bus_ops (polls n phydev))) 1"
    by (simp add: ih)
  have "polls (Suc n) phydev = snd (snd (dp83tc81x_cable_test_get_status (polls n phydev)))"
    by simp
  also have "\<dots> = (polls n phydev)\<lparr>bus_ops := Suc (bus_ops (polls n phydev)),
      trace := trace (polls n phydev) @ [Read_mmd MMD1F DP83TC81x_CDCR]\<rparr>"
    by (simp add: get_status_not_done [OF nd])
  also have "\<dots> = phydev\<lparr>bus_ops := bus_ops phydev + Suc n,
      trace := trace phydev @ replicate (Suc n) (Read_mmd MMD1F DP83TC81x_CDCR)\<rparr>"
    by (simp add: ih replicate_append_same)
  finally show ?case .
qed

text \<open>
  C3. When the status read of \<open>dp83tc81x_cable_test_get_status\<close> has both the done bit
  (bit 1) and the fail bit (bit 0) set, \<open>finished\<close> stays false, the result is \<open>-EINVAL\<close>
  (\<open>-22\<close>), and the report path is not entered: the one status read is all that happens
  to the device.
\<close>

theorem get_status_done_fail:
  assumes "bit (bus_replies phydev (bus_ops phydev)) 1"
    and "bit (bus_replies phydev (bus_ops phydev)) 0"
  shows "dp83tc81x_cable_test_get_status phydev =
           (- EINVAL, False, phydev\<lparr>bus_ops := Suc (bus_ops phydev),
                             trace := trace phydev @ [Read_mmd MMD1F DP83TC81x_CDCR]\<rparr>)
         \<and> sint (- EINVAL) = - 22"
  using assms
  by (simp add: dp83tc81x_cable_test_get_status_def framework_defs TDR_DONE_def TDR_FAIL_def
      and_BIT_eq_0_iff EINVAL_def)

theorem get_status_done_fail_witness:
  "bit (3 :: c_int) 1 \<and> bit (3 :: c_int) 0 \<and>
   dp83tc81x_cable_test_get_status (fresh_phydev (script [3])) =
     (- 22, False, fresh_phydev (script [3])
        \<lparr>bus_ops := 1, trace := [Read_mmd 0x1f 0x1E]\<rparr>)"
  using get_status_done_fail [of "fresh_phydev (script [3])"]
  by (simp add: fresh_phydev_def script_def EINVAL_def MMD1F_def DP83TC81x_CDCR_def)

text \<open>
  C5. While the status read has the done bit (bit 1) clear,
  \<open>dp83tc81x_cable_test_get_status\<close> leaves \<open>finished\<close> false and returns 0, on every one
  of any number of calls in a row; all that the calls do to the device is their status
  reads: no register write, no report, no change of the driver's private data.
\<close>

theorem get_status_not_done_repeated:
  assumes "\<forall>k\<le>n. \<not> bit (bus_replies phydev (bus_ops phydev + k)) 1"
  shows "dp83tc81x_cable_test_get_status (polls n phydev) =
           (0, False,
            phydev\<lparr>bus_ops := bus_ops phydev + Suc n,
                    trace := trace phydev @ replicate (Suc n) (Read_mmd MMD1F DP83TC81x_CDCR)\<rparr>)"
proof -
  from assms have "\<forall>k<n. \<not> bit (bus_replies phydev (bus_ops phydev + k)) 1"
    by simp
  from polls_not_done [OF this] have p: "polls n phydev =
           phydev\<lparr>bus_ops := bus_ops phydev + n,
                   trace := trace phydev @ replicate n (Read_mmd MMD1F DP83TC81x_CDCR)\<rparr>" .
  from assms have "\<not> bit (bus_replies phydev (bus_ops phydev + n)) 1"
    by simp
  then have nd: "\<not> bit (bus_replies (polls n phydev) (bus_ops (polls n phydev))) 1"
    by (simp add: p)
  show ?thesis
    unfolding get_status_not_done [OF nd]
    by (simp add: p replicate_append_same)
qed

theorem get_status_not_done_repeated_witness:
  "\<not> bit (0 :: c_int) 1 \<and> \<not> bit (0x8000 :: c_int) 1 \<and> \<not> bit (1 :: c_int) 1 \<and>
   dp83tc81x_cable_test_get_status (polls 2 (fresh_phydev (script [0, 0x8000, 1]))) =
     (0, False, fresh_phydev (script [0, 0x8000, 1])
        \<lparr>bus_ops := 3,
          trace := [Read_mmd 0x1f 0x1E, Read_mmd 0x1f 0x1E, Read_mmd 0x1f 0x1E]\<rparr>)"
proof -
  have h: "\<forall>k\<le>2. \<not> bit (bus_replies (fresh_phydev (script [0, 0x8000, 1]))
                    (bus_ops (fresh_phydev (script [0, 0x8000, 1])) + k)) 1"
    by (simp add: fresh_phydev_def script_def nth_Cons split: nat.split)
  from get_status_not_done_repeated [OF h] show ?thesis
    by (simp add: fresh_phydev_def numeral_3_eq_3 MMD1F_def DP83TC81x_CDCR_def)
qed

lemma cable_test_report_eq:
  "dp83tc81x_cable_test_report phydev =
     (let ret = bus_replies phydev (bus_ops phydev);
          phydev1 = phydev\<lparr>bus_ops := Suc (bus_ops phydev),
                            trace := trace phydev @ [Read_mmd MMD1F DP83TC81x_TDR_TC1]\<rparr>
      in if ret <s 0 then (ret, phydev1)
         else (0, emit (Cable_result ETHTOOL_A_CABLE_PAIR_A
                          (fst (dp83tc81x_cable_test_report_trans phydev1 ret)))
                    (snd (dp83tc81x_cable_test_report_trans phydev1 ret))))"
  by (simp add: dp83tc81x_cable_test_report_def framework_defs Let_def split_beta)

lemmas get_status_eval =
  dp83tc81x_cable_test_get_status_def dp83tc81x_cable_test_report_def
  dp83tc81x_cable_test_report_trans_def framework_defs fresh_phydev_def script_def
  TDR_DONE_def TDR_FAIL_def PEAK_DETECT_def PEAK_SIGN_def BIT_def MMD1F_def
  DP83TC81x_CDCR_def DP83TC81x_TDR_TC1_def EINVAL_def word_sless_alt

text \<open>
  C4. When the status read of \<open>dp83tc81x_cable_test_get_status\<close> has the done bit (bit 1)
  set and the fail bit (bit 0) clear, \<open>finished\<close> becomes true and the result is that of
  \<open>dp83tc81x_cable_test_report\<close> on the device after the status read. The report reads
  the result register; a negative read is returned as it is and nothing is published;
  otherwise the decoded result is published for pair A and the report returns 0.
\<close>

theorem get_status_done_pass:
  assumes "bit (bus_replies phydev (bus_ops phydev)) 1"
    and "\<not> bit (bus_replies phydev (bus_ops phydev)) 0"
  defines "polled \<equiv> phydev\<lparr>bus_ops := Suc (bus_ops phydev),
                            trace := trace phydev @ [Read_mmd MMD1F DP83TC81x_CDCR]\<rparr>"
  defines "result_read \<equiv> polled\<lparr>bus_ops := Suc (bus_ops polled),
                            trace := trace polled @ [Read_mmd MMD1F DP83TC81x_TDR_TC1]\<rparr>"
  defines "raw \<equiv> bus_replies phydev (Suc (bus_ops phydev))"
  shows "dp83tc81x_cable_test_get_status phydev =
           (fst (dp83tc81x_cable_test_report polled), True,
            snd (dp83tc81x_cable_test_report polled))
       \<and> dp83tc81x_cable_test_report polled =
           (if raw <s 0 then (raw, result_read)
            else (0, ethnl_cable_test_result
                       (snd (dp83tc81x_cable_test_report_trans result_read raw))
                       ETHTOOL_A_CABLE_PAIR_A
                       (fst (dp83tc81x_cable_test_report_trans result_read raw))))"
proof
  show "dp83tc81x_cable_test_get_status phydev =
           (fst (dp83tc81x_cable_test_report polled), True,
            snd (dp83tc81x_cable_test_report polled))"
    using assms(1,2)
    by (simp add: dp83tc81x_cable_test_get_status_def framework_defs TDR_DONE_def TDR_FAIL_def
      and_BIT_eq_0_iff split_beta polled_def)
  show "dp83tc81x_cable_test_report polled =
           (if raw <s 0 then (raw, result_read)
            else (0, ethnl_cable_test_result
                       (snd (dp83tc81x_cable_test_report_trans result_read raw))
                       ETHTOOL_A_CABLE_PAIR_A
                       (fst (dp83tc81x_cable_test_report_trans result_read raw))))"
    by (simp add: cable_test_report_eq Let_def result_read_def raw_def polled_def
        ethnl_cable_test_result_def)
qed

theorem get_status_done_pass_witness:
  "bit (2 :: c_int) 1 \<and> \<not> bit (2 :: c_int) 0 \<and>
   dp83tc81x_cable_test_get_status (fresh_phydev (script [2, 0xC8])) =
     (0, True, fresh_phydev (script [2, 0xC8])
        \<lparr>bus_ops := 2,
          trace := [Read_mmd 0x1f 0x1E, Read_mmd 0x1f 0x310,
                    Fault_length ETHTOOL_A_CABLE_PAIR_A 800,
                    Cable_result ETHTOOL_A_CABLE_PAIR_A ETHTOOL_A_CABLE_RESULT_CODE_OPEN]\<rparr>)"
proof -
  have h1: "bit (bus_replies (fresh_phydev (script [2, 0xC8]))
                  (bus_ops (fresh_phydev (script [2, 0xC8])))) 1"
    by (simp add: fresh_phydev_def script_def)
  have h0: "\<not> bit (bus_replies (fresh_phydev (script [2, 0xC8]))
                  (bus_ops (fresh_phydev (script [2, 0xC8])))) 0"
    by (simp add: fresh_phydev_def script_def)
  from get_status_done_pass [OF h1 h0] show ?thesis
    by (simp add: get_status_eval)
qed

text \<open>
  C6 says that every failing register operation is returned as it is to the caller and
  ends the operation under way. The code does not do that: \<open>dp83tc81x_cable_test_get_status\<close>
  never tests its status read for an error, it reads the bits of the errno. A read that
  fails with \<open>-ETIMEDOUT\<close> (\<open>-110\<close>, bit 1 set, bit 0 clear) counts as done and passed, so
  that with a result register reading 0 the call returns success and publishes OK; one
  that fails with \<open>-ENODEV\<close> (\<open>-19\<close>, bit 1 clear) returns success with \<open>finished\<close> false;
  one that fails with \<open>-EIO\<close> (\<open>-5\<close>, bits 1 and 0 set) returns \<open>-EINVAL\<close>. In
  \<open>dp83tc81x_chip_init\<close> a failing write to register \<open>0x0834\<close> is overwritten: all twelve
  register transactions are made and the result is 0.
\<close>

theorem register_errors_not_propagated:
  "(- 110 :: c_int) <s 0
   \<and> dp83tc81x_cable_test_get_status (fresh_phydev (script [- 110, 0])) =
       (0, True, fresh_phydev (script [- 110, 0])
          \<lparr>bus_ops := 2,
            trace := [Read_mmd 0x1f 0x1E, Read_mmd 0x1f 0x310,
                      Cable_result ETHTOOL_A_CABLE_PAIR_A ETHTOOL_A_CABLE_RESULT_CODE_OK]\<rparr>)
   \<and> (- 19 :: c_int) <s 0
   \<and> dp83tc81x_cable_test_get_status (fresh_phydev (script [- 19])) =
       (0, False, fresh_phydev (script [- 19])
          \<lparr>bus_ops := 1, trace := [Read_mmd 0x1f 0x1E]\<rparr>)
   \<and> (- 5 :: c_int) <s 0
   \<and> dp83tc81x_cable_test_get_status (fresh_phydev (script [- 5])) =
       (- 22, False, fresh_phydev (script [- 5])
          \<lparr>bus_ops := 1, trace := [Read_mmd 0x1f 0x1E]\<rparr>)
   \<and> fst (dp83tc81x_chip_init (fresh_phydev (script [0, - 5]))) = 0
   \<and> bus_ops (snd (dp83tc81x_chip_init (fresh_phydev (script [0, - 5])))) = 12"
proof -
  have e1: "dp83tc81x_cable_test_get_status (fresh_phydev (script [- 110, 0])) =
       (0, True, fresh_phydev (script [- 110, 0])
          \<lparr>bus_ops := 2,
            trace := [Read_mmd 0x1f 0x1E, Read_mmd 0x1f 0x310,
                      Cable_result ETHTOOL_A_CABLE_PAIR_A ETHTOOL_A_CABLE_RESULT_CODE_OK]\<rparr>)"
    by (simp add: get_status_eval)
  have e2: "dp83tc81x_cable_test_get_status (fresh_phydev (script [- 19])) =
       (0, False, fresh_phydev (script [- 19])
          \<lparr>bus_ops := 1, trace := [Read_mmd 0x1f 0x1E]\<rparr>)"
    by (simp add: get_status_eval)
  have e3: "dp83tc81x_cable_test_get_status (fresh_phydev (script [- 5])) =
       (- 22, False, fresh_phydev (script [- 5])
          \<lparr>bus_ops := 1, trace := [Read_mmd 0x1f 0x1E]\<rparr>)"
    by (simp add: get_status_eval)
  have e4: "fst (dp83tc81x_chip_init (fresh_phydev (script [0, - 5]))) = 0
      \<and> bus_ops (snd (dp83tc81x_chip_init (fresh_phydev (script [0, - 5])))) = 12"
    by (simp add: dp83tc81x_chip_init_def chip_init_arm_def dp83tc81x_reset_def
        DP83TC812_slave_cs2_0_init_def init_reg_def framework_defs fresh_phydev_def
        script_def DP83TC812_CT_def split_beta nth_Cons')
  have s: "(- 110 :: c_int) <s 0" "(- 19 :: c_int) <s 0" "(- 5 :: c_int) <s 0"
    by (simp_all add: word_sless_alt)
  from e1 e2 e3 e4 s show ?thesis
    by (intro conjI) (simp_all only:)
qed

section \<open>Starting the cable test\<close>

text \<open>
  C7. \<open>dp83tc81x_cable_test_start\<close> returns 0 whatever the bus answers to its writes:
  after the writes of the TDR configuration table (as far as \<open>dp83tc81x_write_seq\<close> gets)
  it always issues the TDR start command, sleeps 100 ms and reports success.
\<close>

theorem cable_test_start_returns_0:
  "fst (dp83tc81x_cable_test_start phydev) = 0
   \<and> trace (snd (dp83tc81x_cable_test_start phydev)) =
       trace (snd (dp83tc81x_write_seq phydev DP83TC81x_tdr_config_init))
         @ [Write_mmd MMD1F DP83TC81x_CDCR DP83TC81x_TDR_START_BIT, Msleep 100]"
  by (simp add: dp83tc81x_cable_test_start_def split_beta framework_defs)

section \<open>Straps\<close>

text \<open>
  C9. A successful strap read of \<open>dp83tc81x_read_straps\<close> only ever sets \<open>is_master\<close> and
  \<open>is_rgmii\<close>: each flag becomes true when its strap bit (9, 7) is set and is left as it
  was when the bit is clear, and nothing else of the private data changes; so a flag that
  is true stays true.
\<close>

theorem read_straps_only_sets:
  assumes "\<not> bus_replies phydev (bus_ops phydev) <s 0"
  shows "fst (dp83tc81x_read_straps phydev) = 0
       \<and> priv (snd (dp83tc81x_read_straps phydev)) =
           (priv phydev)\<lparr>is_master := is_master (priv phydev)
                                          \<or> bit (bus_replies phydev (bus_ops phydev)) 9,
                          is_rgmii := is_rgmii (priv phydev)
                                          \<or> bit (bus_replies phydev (bus_ops phydev)) 7\<rparr>
       \<and> (is_master (priv phydev) \<longrightarrow> is_master (priv (snd (dp83tc81x_read_straps phydev))))
       \<and> (is_rgmii (priv phydev) \<longrightarrow> is_rgmii (priv (snd (dp83tc81x_read_straps phydev))))"
  using assms
  by (simp add: dp83tc81x_read_straps_def framework_defs DP83TC81x_MASTER_MODE_def
      DP83TC81x_RGMII_IS_EN_def and_BIT_eq_0_iff Let_def)

theorem read_straps_only_sets_witness:
  "\<not> (0 :: c_int) <s 0
   \<and> priv (snd (dp83tc81x_read_straps
        (fresh_phydev (script [0])
           \<lparr>priv := \<lparr>chip = 0, is_master = True, is_rgmii = True, is_sgmii = False\<rparr>\<rparr>)))
      = \<lparr>chip = 0, is_master = True, is_rgmii = True, is_sgmii = False\<rparr>"
proof -
  have h: "\<not> bus_replies (fresh_phydev (script [0])
           \<lparr>priv := \<lparr>chip = 0, is_master = True, is_rgmii = True, is_sgmii = False\<rparr>\<rparr>)
         (bus_ops (fresh_phydev (script [0])
           \<lparr>priv := \<lparr>chip = 0, is_master = True, is_rgmii = True, is_sgmii = False\<rparr>\<rparr>)) <s 0"
    by (simp add: fresh_phydev_def script_def)
  from read_straps_only_sets [OF h] show ?thesis
    by (simp add: fresh_phydev_def script_def)
qed

section \<open>Link status\<close>

text \<open>
  C10. \<open>dp83tc81x_read_status\<close> returns 0 whenever \<open>genphy_read_status\<close> returns 0,
  whatever \<open>genphy_c45_pma_baset1_read_master_slave\<close> returns: that result is stored and
  dropped, and the device is left as that second call left it.
\<close>

theorem read_status_drops_master_slave_result:
  assumes "fst (genphy_read_status phydev) = 0"
  shows "fst (dp83tc81x_read_status genphy_read_status
                 genphy_c45_pma_baset1_read_master_slave phydev) = 0
       \<and> snd (dp83tc81x_read_status genphy_read_status
                 genphy_c45_pma_baset1_read_master_slave phydev)
          = snd (genphy_c45_pma_baset1_read_master_slave (snd (genphy_read_status phydev)))"
  using assms
  by (simp add: dp83tc81x_read_status_def split_beta)

theorem read_status_drops_master_slave_result_witness:
  "fst ((\<lambda>p. (0, p)) (fresh_phydev (script []))) = (0 :: c_int)
   \<and> fst (dp83tc81x_read_status (\<lambda>p. (0, p)) (\<lambda>p. (- 5, emit (Mdelay 1) p))
             (fresh_phydev (script []))) = 0
   \<and> snd (dp83tc81x_read_status (\<lambda>p. (0, p)) (\<lambda>p. (- 5, emit (Mdelay 1) p))
             (fresh_phydev (script []))) = emit (Mdelay 1) (fresh_phydev (script []))"
proof -
  have h: "fst ((\<lambda>p. (0 :: c_int, p)) (fresh_phydev (script []))) = 0"
    by simp
  from read_status_drops_master_slave_result
         [of "\<lambda>p. (0, p)" "fresh_phydev (script [])" "\<lambda>p. (- 5, emit (Mdelay 1) p)", OF h]
  show ?thesis
    by simp
qed

section \<open>Signal quality\<close>

text \<open>
  C8. When the read of the link-quality register succeeds, \<open>dp83tc81x_sqi\<close> returns an
  index between 0 and 7, the value of bits 3:1 of the register; \<open>dp83tc81x_sqi_max\<close>
  returns 7 on every call.
\<close>

theorem sqi_in_range:
  assumes "\<not> bus_replies phydev (bus_ops phydev) <s 0"
  shows "0 <=s fst (dp83tc81x_sqi phydev) \<and> fst (dp83tc81x_sqi phydev) <=s 7
       \<and> unat (fst (dp83tc81x_sqi phydev))
           = (unat (bus_replies phydev (bus_ops phydev)) div 2) mod 8
       \<and> dp83tc81x_sqi_max phydev' = 7"
proof -
  have e: "fst (dp83tc81x_sqi phydev)
             = signed_drop_bit 1 (bus_replies phydev (bus_ops phydev)) AND 0x7"
    using assms by (simp add: dp83tc81x_sqi_def framework_defs)
  have m: "dp83tc81x_sqi_max phydev' = 7"
    by (simp add: dp83tc81x_sqi_max_def MAX_SQI_VALUE_def)
  show ?thesis
    unfolding e sqi_bits unat_sqi_bits
    using sqi_bits_range [of "bus_replies phydev (bus_ops phydev)"] m by blast
qed

theorem sqi_in_range_witness:
  "\<not> (0x000A :: c_int) <s 0
   \<and> fst (dp83tc81x_sqi (fresh_phydev (script [0x000A]))) = 5
   \<and> (0 :: c_int) <=s 5 \<and> (5 :: c_int) <=s 7
   \<and> dp83tc81x_sqi_max (fresh_phydev (script [0x000A])) = 7"
proof -
  have h: "\<not> bus_replies (fresh_phydev (script [0x000A]))
               (bus_ops (fresh_phydev (script [0x000A]))) <s 0"
    by (simp add: fresh_phydev_def script_def word_sless_alt)
  have v: "fst (dp83tc81x_sqi (fresh_phydev (script [0x000A]))) = 5"
    by (simp add: dp83tc81x_sqi_def framework_defs fresh_phydev_def script_def
        word_sless_alt)
  from sqi_in_range [OF h, of "fresh_phydev (script [0x000A])"] show ?thesis
    by (simp add: v word_sless_alt)
qed

end
